theory Spec2Isabelle
  imports Main "HOL-Library.Multiset"
begin

section \<open>Python values\<close>

text \<open>
  A Python \<open>str\<close> is a sequence of Unicode code points, and \<open>len\<close> counts code points,
  so a \<open>str\<close> is a list of code point numbers. \<open>lit\<close> turns a literal of the source
  into such a list.
\<close>

type_synonym pystr = "nat list"

definition lit :: "string \<Rightarrow> pystr" where
  "lit s = map of_char s"

text \<open>
  \<open>str.strip()\<close> without argument removes the leading and the trailing run of whitespace
  characters. The whitespace code points are those of \<open>str.isspace\<close>: TAB to CR,
  FS to US and SPACE, NEL, NBSP, and the Unicode space separators.
\<close>

definition isspace :: "nat \<Rightarrow> bool" where
  "isspace c \<longleftrightarrow>
     (9 \<le> c \<and> c \<le> 13) \<or> (28 \<le> c \<and> c \<le> 32) \<or> c = 133 \<or> c = 160 \<or> c = 5760 \<or>
     (8192 \<le> c \<and> c \<le> 8202) \<or> c = 8232 \<or> c = 8233 \<or> c = 8239 \<or> c = 8287 \<or> c = 12288"

definition strip :: "pystr \<Rightarrow> pystr" where
  "strip s = rev (dropWhile isspace (rev (dropWhile isspace s)))"

text \<open>
  The exceptions the code and its libraries raise, with \<open>str(e)\<close> as the argument where
  an endpoint reports it:
  \<^item> \<open>ValueError(message)\<close>, raised by the services and by psycopg2;
  \<^item> \<open>UnicodeEncodeError\<close>, a subclass of \<open>ValueError\<close>, raised by the UTF-8 codec;
  \<^item> the errors of the database (psycopg2's \<open>DataError\<close> and \<open>IntegrityError\<close>), which are
    no \<open>ValueError\<close>;
  \<^item> \<open>HTTPException(status_code, detail)\<close>, raised by the endpoints.
\<close>

datatype pg_error =
  InvalidTextRepresentation | StringDataRightTruncation | UniqueViolation | ForeignKeyViolation

datatype exn =
  ValueError pystr | UnicodeEncodeError pystr | DatabaseError pg_error | HTTPException nat pystr

text \<open>
  The libraries whose results are parameters of the model: \<open>md5 lib b\<close> stands for
  \<open>hashlib.md5(b).hexdigest()\<close> and \<open>sha256 lib b\<close> for \<open>hashlib.sha256(b).hexdigest()\<close>, of
  the UTF-8 bytes of \<open>b\<close>, and \<open>utf8_error lib s\<close> for the text of the
  \<open>UnicodeEncodeError\<close> that encoding \<open>s\<close> raises.
\<close>

record library =
  md5 :: "pystr \<Rightarrow> pystr"
  sha256 :: "pystr \<Rightarrow> pystr"
  utf8_error :: "pystr \<Rightarrow> pystr"

text \<open>
  \<open>s.encode()\<close>: UTF-8 encodes every code point but the surrogates U+D800 to U+DFFF, for
  which it raises. The bytes are kept as the string they encode.
\<close>

definition surrogate :: "nat \<Rightarrow> bool" where
  "surrogate c \<longleftrightarrow> 55296 \<le> c \<and> c \<le> 57343"

definition encodable :: "pystr \<Rightarrow> bool" where
  "encodable s \<longleftrightarrow> (\<forall>c \<in> set s. \<not> surrogate c)"

definition encode :: "library \<Rightarrow> pystr \<Rightarrow> exn + pystr" where
  "encode lib s = (if encodable s then Inr s else Inl (UnicodeEncodeError (utf8_error lib s)))"

text \<open>
  A hexadecimal digest of \<open>n\<close> characters, as \<open>hexdigest()\<close> returns it: digits and the
  letters a to f.
\<close>

definition hexdigest :: "nat \<Rightarrow> pystr \<Rightarrow> bool" where
  "hexdigest n d \<longleftrightarrow>
     length d = n \<and> (\<forall>c \<in> set d. (48 \<le> c \<and> c \<le> 57) \<or> (97 \<le> c \<and> c \<le> 102))"


section \<open>The driver and the engine (psycopg2, PostgreSQL)\<close>

text \<open>
  \<open>cursor.execute(sql, params)\<close> first turns every \<open>str\<close> parameter into a quoted
  literal, in the order of the tuple: the string is encoded, and psycopg2 refuses a NUL
  character with a \<open>ValueError\<close>. \<open>mogrify\<close> is the first exception of that pass, if any;
  the statement is sent only when there is none.
\<close>

definition adapt :: "library \<Rightarrow> pystr \<Rightarrow> exn + pystr" where
  "adapt lib s =
     (case encode lib s of
        Inl e \<Rightarrow> Inl e
      | Inr b \<Rightarrow>
          if 0 \<in> set b then
            Inl (ValueError (lit ''A string literal cannot contain NUL (0x00) characters.''))
          else Inr b)"

fun mogrify :: "library \<Rightarrow> pystr list \<Rightarrow> exn option" where
  "mogrify lib [] = None"
| "mogrify lib (p # ps) = (case adapt lib p of Inl e \<Rightarrow> Some e | Inr _ \<Rightarrow> mogrify lib ps)"

text \<open>
  A value stored in a column \<open>VARCHAR(n)\<close>: a longer value is an error unless the excess
  characters are all spaces, and then it is cut to \<open>n\<close> characters.
\<close>

definition varchar :: "nat \<Rightarrow> pystr \<Rightarrow> pystr option" where
  "varchar n s =
     (if length s \<le> n then Some s
      else if \<forall>c \<in> set (drop n s). c = 32 then Some (take n s)
      else None)"

text \<open>
  A text compared with or stored in a column \<open>UUID\<close> is read by the engine's input
  function: sixteen bytes of two hexadecimal digits each, in either case; a hyphen may
  follow any group of four digits but the last; the whole may stand in braces. Anything
  else is an error. \<open>uuid_in\<close> gives the value as the engine prints it, and as psycopg2
  returns it: lower-case digits in groups of 8, 4, 4, 4 and 12. Code point 45 is the
  hyphen, 123 and 125 are the braces.
\<close>

definition hexdigit :: "nat \<Rightarrow> bool" where
  "hexdigit c \<longleftrightarrow> (48 \<le> c \<and> c \<le> 57) \<or> (65 \<le> c \<and> c \<le> 70) \<or> (97 \<le> c \<and> c \<le> 102)"

definition tolower :: "nat \<Rightarrow> nat" where
  "tolower c = (if 65 \<le> c \<and> c \<le> 90 then c + 32 else c)"

primrec uuid_bytes :: "nat \<Rightarrow> pystr \<Rightarrow> (pystr \<times> pystr) option" where
  "uuid_bytes 0 src = Some ([], src)"
| "uuid_bytes (Suc n) src =
     (case src of
        a # b # rest \<Rightarrow>
          if hexdigit a \<and> hexdigit b then
            (case uuid_bytes n
                    (if even n \<and> 0 < n \<and> take 1 rest = [45] then tl rest else rest) of
               Some (digits, rest') \<Rightarrow> Some (tolower a # tolower b # digits, rest')
             | None \<Rightarrow> None)
          else None
      | _ \<Rightarrow> None)"

definition uuid_out :: "pystr \<Rightarrow> pystr" where
  "uuid_out digits =
     take 8 digits @ [45] @ take 4 (drop 8 digits) @ [45] @ take 4 (drop 12 digits) @ [45] @
     take 4 (drop 16 digits) @ [45] @ drop 20 digits"

definition uuid_in :: "pystr \<Rightarrow> pystr option" where
  "uuid_in source =
     (let braces = (take 1 source = [123]);
          src = (if braces then tl source else source)
      in case uuid_bytes 16 src of
           None \<Rightarrow> None
         | Some (digits, rest) \<Rightarrow>
             if rest = (if braces then [125] else []) then Some (uuid_out digits) else None)"


section \<open>The database of the modular variant (app/core/database.py)\<close>

text \<open>
  The three tables of \<open>init_db\<close>, a row per record, each table in the order of insertion.
  An identifier is stored as the text the engine prints for the UUID, and \<open>created_at\<close>
  is a point in time, of which only the order matters.
\<close>

type_synonym timestamp = int

record users_row =
  users_id :: pystr
  users_username :: pystr
  users_password_hash :: pystr
  users_created_at :: timestamp

record posts_row =
  posts_id :: pystr
  posts_title :: pystr
  posts_content :: pystr
  posts_author_id :: pystr
  posts_created_at :: timestamp
  posts_updated_at :: "timestamp option"

record comments_row =
  comments_id :: pystr
  comments_post_id :: pystr
  comments_content :: pystr
  comments_author_id :: pystr
  comments_created_at :: timestamp

record database =
  users :: "users_row list"
  posts :: "posts_row list"
  comments :: "comments_row list"

text \<open>
  The column defaults of an \<open>INSERT\<close> come from the engine: \<open>gen_random_uuid()\<close> for
  \<open>id\<close> and \<open>NOW()\<close> for \<open>created_at\<close>. They are inputs of the model.
\<close>

record generated =
  gen_random_uuid :: pystr
  now :: timestamp

text \<open>
  The three \<open>INSERT\<close> statements as the schema decides them. The values are read for
  their columns in the order of the statement (\<open>VARCHAR(100)\<close> and \<open>VARCHAR(255)\<close> for a
  user, \<open>VARCHAR(200)\<close> and \<open>UUID\<close> for a post, \<open>UUID\<close> twice for a comment); then the row
  must not repeat a primary key or a \<open>UNIQUE\<close> username; then every \<open>REFERENCES\<close> must
  find its row. A statement that fails changes nothing.
\<close>

definition insert_users ::
  "generated \<Rightarrow> database \<Rightarrow> pystr \<Rightarrow> pystr \<Rightarrow> database \<times> (exn + users_row)" where
  "insert_users gen db username password_hash =
     (case varchar 100 username of
        None \<Rightarrow> (db, Inl (DatabaseError StringDataRightTruncation))
      | Some u \<Rightarrow>
          (case varchar 255 password_hash of
             None \<Rightarrow> (db, Inl (DatabaseError StringDataRightTruncation))
           | Some h \<Rightarrow>
               if \<exists>r \<in> set (users db). users_id r = gen_random_uuid gen \<or> users_username r = u
               then (db, Inl (DatabaseError UniqueViolation))
               else
                 (let row = \<lparr>users_id = gen_random_uuid gen, users_username = u,
                              users_password_hash = h, users_created_at = now gen\<rparr>
                  in (db\<lparr>users := users db @ [row]\<rparr>, Inr row))))"

definition insert_posts ::
  "generated \<Rightarrow> database \<Rightarrow> pystr \<Rightarrow> pystr \<Rightarrow> pystr \<Rightarrow> database \<times> (exn + posts_row)" where
  "insert_posts gen db title content author_id =
     (case varchar 200 title of
        None \<Rightarrow> (db, Inl (DatabaseError StringDataRightTruncation))
      | Some t \<Rightarrow>
          (case uuid_in author_id of
             None \<Rightarrow> (db, Inl (DatabaseError InvalidTextRepresentation))
           | Some author \<Rightarrow>
               if \<exists>r \<in> set (posts db). posts_id r = gen_random_uuid gen
               then (db, Inl (DatabaseError UniqueViolation))
               else if \<forall>u \<in> set (users db). users_id u \<noteq> author
               then (db, Inl (DatabaseError ForeignKeyViolation))
               else
                 (let row = \<lparr>posts_id = gen_random_uuid gen, posts_title = t,
                              posts_content = content, posts_author_id = author,
                              posts_created_at = now gen, posts_updated_at = None\<rparr>
                  in (db\<lparr>posts := posts db @ [row]\<rparr>, Inr row))))"



section \<open>UserService (app/modules/users/services/user_service.py)\<close>

text \<open>What \<open>RETURNING id, username, created_at\<close> and \<open>SELECT id, username, created_at\<close>
  give back: the row without its \<open>password_hash\<close>. The method \<open>_hash_password\<close> is
  written \<open>UserService_hash_password\<close>. \<open>fetchone\<close> takes the first row of a result or
  \<open>None\<close>; the conditions of the services test a key of the table, so a result has one
  row at most.\<close>

record user_dict =
  user_id :: pystr
  user_username :: pystr
  user_created_at :: timestamp

definition user_columns :: "users_row \<Rightarrow> user_dict" where
  "user_columns r =
     \<lparr>user_id = users_id r, user_username = users_username r,
      user_created_at = users_created_at r\<rparr>"

definition UserService_hash_password :: "library \<Rightarrow> pystr \<Rightarrow> exn + pystr" where
  "UserService_hash_password lib password =
     (case encode lib password of Inl e \<Rightarrow> Inl e | Inr b \<Rightarrow> Inr (sha256 lib b))"

definition create_user ::
  "library \<Rightarrow> generated \<Rightarrow> database \<Rightarrow> pystr \<Rightarrow> pystr \<Rightarrow> database \<times> (exn + user_dict)" where
  "create_user lib gen db username password =
     (case mogrify lib [username] of
        Some e \<Rightarrow> (db, Inl e)
      | None \<Rightarrow>
          (case find (\<lambda>r. users_username r = username) (users db) of
             Some existing_user \<Rightarrow>
               (db, Inl (ValueError
                  (lit ''Username '' @ [39] @ username @ [39] @ lit '' already exists'')))
           | None \<Rightarrow>
               (case UserService_hash_password lib password of
                  Inl e \<Rightarrow> (db, Inl e)
                | Inr password_hash \<Rightarrow>
                    (case mogrify lib [username, password_hash] of
                       Some e \<Rightarrow> (db, Inl e)
                     | None \<Rightarrow>
                         (case insert_users gen db username password_hash of
                            (db', Inl e) \<Rightarrow> (db', Inl e)
                          | (db', Inr user) \<Rightarrow> (db', Inr (user_columns user)))))))"



section \<open>PostService (app/modules/posts/services/post_service.py)\<close>

text \<open>Both statements of the service return every column of \<open>posts\<close>, so the returned
  \<open>dict\<close> is the row.\<close>

definition create_post ::
  "library \<Rightarrow> generated \<Rightarrow> database \<Rightarrow> pystr \<Rightarrow> pystr \<Rightarrow> pystr \<Rightarrow>
   database \<times> (exn + posts_row)" where
  "create_post lib gen db title content author_id =
     (if title = [] \<or> length (strip title) = 0 then
        (db, Inl (ValueError (lit ''Title cannot be empty'')))
      else if length title > 200 then
        (db, Inl (ValueError (lit ''Title cannot exceed 200 characters'')))
      else if content = [] \<or> length (strip content) = 0 then
        (db, Inl (ValueError (lit ''Content cannot be empty'')))
      else
        (case mogrify lib [strip title, strip content, author_id] of
           Some e \<Rightarrow> (db, Inl e)
         | None \<Rightarrow> insert_posts gen db (strip title) (strip content) author_id))"

definition get_post_by_id :: "library \<Rightarrow> database \<Rightarrow> pystr \<Rightarrow> exn + posts_row option" where
  "get_post_by_id lib db post_id =
     (case mogrify lib [post_id] of
        Some e \<Rightarrow> Inl e
      | None \<Rightarrow>
          (case uuid_in post_id of
             None \<Rightarrow> Inl (DatabaseError InvalidTextRepresentation)
           | Some i \<Rightarrow> Inr (find (\<lambda>r. posts_id r = i) (posts db))))"


section \<open>CommentService (app/modules/comments/services/comment_service.py)\<close>





section \<open>The endpoints of the modular variant (app/api)\<close>

text \<open>
  An endpoint calls its service inside \<open>try\<close>. In \<open>register\<close>, \<open>create_post\<close> and
  \<open>create_comment\<close>, \<open>except ValueError as e\<close> turns a \<open>ValueError\<close> (a
  \<open>UnicodeEncodeError\<close> is one) into \<open>HTTPException(400, str(e))\<close> and every other
  exception becomes \<open>HTTPException(500, "Internal server error")\<close>. In \<open>login\<close> and
  \<open>get_post\<close> an \<open>HTTPException\<close> is raised again and every other exception, a
  \<open>ValueError\<close> too, becomes status 500.
  The request and response models are pydantic classes; \<open>str(...)\<close> of an identifier is
  the identifier, and \<open>isoformat()\<close> of a timestamp is kept as the timestamp.
  The endpoints \<open>register\<close>, \<open>login\<close>, \<open>create_post\<close>, \<open>get_post\<close> and
  \<open>create_comment\<close> are written \<open>api_register\<close>, ..., \<open>api_create_comment\<close> here:
  two of them have the name of the service method they call.
\<close>

definition except_ValueError :: "exn \<Rightarrow> exn" where
  "except_ValueError e =
     (case e of
        ValueError message \<Rightarrow> HTTPException 400 message
      | UnicodeEncodeError message \<Rightarrow> HTTPException 400 message
      | _ \<Rightarrow> HTTPException 500 (lit ''Internal server error''))"

definition except_HTTPException :: "exn \<Rightarrow> exn" where
  "except_HTTPException e =
     (case e of
        HTTPException status detail \<Rightarrow> HTTPException status detail
      | _ \<Rightarrow> HTTPException 500 (lit ''Internal server error''))"

record RegisterRequest =
  register_username :: pystr
  register_password :: pystr

text \<open>\<open>RegisterResponse(userId, username)\<close>\<close>

datatype RegisterResponse = RegisterResponse pystr pystr




text \<open>\<open>PostResponse(postId, title, content, authorId, createdAt, updatedAt)\<close>\<close>

datatype PostResponse = PostResponse pystr pystr pystr pystr timestamp "timestamp option"



definition api_register ::
  "library \<Rightarrow> generated \<Rightarrow> database \<Rightarrow> RegisterRequest \<Rightarrow>
   database \<times> (exn + RegisterResponse)" where
  "api_register lib gen db request =
     (case create_user lib gen db (register_username request) (register_password request) of
        (db', Inr user) \<Rightarrow> (db', Inr (RegisterResponse (user_id user) (user_username user)))
      | (db', Inl e) \<Rightarrow> (db', Inl (except_ValueError e)))"


text \<open>\<open>create_post\<close> and \<open>get_post\<close> build their \<open>PostResponse\<close> from the row in the
  same way.\<close>

definition post_response :: "posts_row \<Rightarrow> PostResponse" where
  "post_response post =
     PostResponse (posts_id post) (posts_title post) (posts_content post) (posts_author_id post)
       (posts_created_at post) (posts_updated_at post)"


definition api_get_post :: "library \<Rightarrow> database \<Rightarrow> pystr \<Rightarrow> exn + PostResponse" where
  "api_get_post lib db post_id =
     (case (case get_post_by_id lib db post_id of
              Inl e \<Rightarrow> Inl e
            | Inr None \<Rightarrow> Inl (HTTPException 404 (lit ''Post not found''))
            | Inr (Some post) \<Rightarrow> Inr (post_response post)) of
        Inl e \<Rightarrow> Inl (except_HTTPException e)
      | Inr response \<Rightarrow> Inr response)"




section \<open>Auxiliary facts\<close>

subsection \<open>\<open>strip\<close>\<close>

lemma dropWhile_all_iff: "(\<forall>x \<in> set (dropWhile P xs). P x) \<longleftrightarrow> dropWhile P xs = []"
proof
  assume a: "\<forall>x \<in> set (dropWhile P xs). P x"
  show "dropWhile P xs = []"
  proof (rule ccontr)
    assume n: "dropWhile P xs \<noteq> []"
    then have "\<not> P (hd (dropWhile P xs))" by (rule hd_dropWhile)
    moreover from n have "hd (dropWhile P xs) \<in> set (dropWhile P xs)" by (rule hd_in_set)
    ultimately show False using a by blast
  qed
next
  assume "dropWhile P xs = []"
  then show "\<forall>x \<in> set (dropWhile P xs). P x" by (auto dest: set_dropWhileD)
qed

lemma strip_Nil_iff: "strip s = [] \<longleftrightarrow> (\<forall>c \<in> set s. isspace c)"
proof -
  have "strip s = [] \<longleftrightarrow> (\<forall>x \<in> set (dropWhile isspace s). isspace x)"
    by (simp add: strip_def)
  also have "\<dots> \<longleftrightarrow> dropWhile isspace s = []" by (rule dropWhile_all_iff)
  also have "\<dots> \<longleftrightarrow> (\<forall>c \<in> set s. isspace c)" by simp
  finally show ?thesis .
qed





lemma length_lit: "length (lit s) = length s" by (simp add: lit_def)

subsection \<open>\<open>find\<close>, the model of \<open>fetchone\<close>\<close>



subsection \<open>The answers of \<open>ORDER BY created_at\<close>\<close>





subsection \<open>What the driver and the engine accept\<close>

lemma not_text_iff: "(s = [] \<or> length (strip s) = 0) \<longleftrightarrow> strip s = []"
  by (auto simp: strip_def)





lemma adapt_Inr: "encodable s \<Longrightarrow> 0 \<notin> set s \<Longrightarrow> adapt lib s = Inr s"
  by (simp add: adapt_def encode_def)

lemma adapt_NUL:
  "encodable s \<Longrightarrow> 0 \<in> set s \<Longrightarrow>
   adapt lib s = Inl (ValueError (lit ''A string literal cannot contain NUL (0x00) characters.''))"
  by (simp add: adapt_def encode_def)


lemma adapt_Inr_iff: "(\<exists>b. adapt lib s = Inr b) \<longleftrightarrow> encodable s \<and> 0 \<notin> set s"
  by (auto simp: adapt_def encode_def)

lemma mogrify_None_iff: "mogrify lib ps = None \<longleftrightarrow> (\<forall>p \<in> set ps. encodable p \<and> 0 \<notin> set p)"
proof (induction ps)
  case Nil
  show ?case by simp
next
  case (Cons p ps)
  show ?case
  proof (cases "encodable p \<and> 0 \<notin> set p")
    case True
    then have "adapt lib p = Inr p" by (simp add: adapt_Inr)
    with True Cons show ?thesis by simp
  next
    case False
    then have "\<not> (\<exists>b. adapt lib p = Inr b)" by (simp only: adapt_Inr_iff) simp
    then obtain e where "adapt lib p = Inl e" by (cases "adapt lib p") auto
    with False show ?thesis by auto
  qed
qed

lemma hexdigest_plain: "hexdigest n d \<Longrightarrow> encodable d \<and> 0 \<notin> set d"
  by (auto simp: hexdigest_def encodable_def surrogate_def)

lemma hexdigest_varchar: "hexdigest n d \<Longrightarrow> n \<le> m \<Longrightarrow> varchar m d = Some d"
  by (simp add: hexdigest_def varchar_def)

lemma varchar_short: "length s \<le> n \<Longrightarrow> varchar n s = Some s"
  by (simp add: varchar_def)


lemma hexdigit_plain: "hexdigit c \<Longrightarrow> c \<noteq> 0 \<and> \<not> surrogate c"
  by (auto simp: hexdigit_def surrogate_def)



subsection \<open>The statements\<close>

lemma lit_messages:
  "lit ''Title cannot be empty'' \<noteq> lit ''Title cannot exceed 200 characters''"
  "lit ''Content cannot be empty'' \<noteq> lit ''Title cannot exceed 200 characters''"
  "lit ''A string literal cannot contain NUL (0x00) characters.'' \<noteq>
     lit ''Title cannot exceed 200 characters''"
  by (simp_all add: lit_def)

lemma mogrify_Some:
  "mogrify lib ps = Some e \<Longrightarrow>
   e = ValueError (lit ''A string literal cannot contain NUL (0x00) characters.'') \<or>
   (\<exists>p \<in> set ps. e = UnicodeEncodeError (utf8_error lib p))"
proof (induction ps)
  case Nil
  then show ?case by simp
next
  case (Cons p ps)
  then show ?case
    by (cases "encodable p"; cases "0 \<in> set p")
       (auto simp: adapt_def encode_def split: if_splits)
qed

lemma mogrify_first_NUL:
  "encodable p \<Longrightarrow> 0 \<in> set p \<Longrightarrow>
   mogrify lib (p # ps) =
     Some (ValueError (lit ''A string literal cannot contain NUL (0x00) characters.''))"
  by (simp add: adapt_NUL)


lemma mogrify_skip:
  "encodable p \<Longrightarrow> 0 \<notin> set p \<Longrightarrow> mogrify lib (p # ps) = mogrify lib ps"
  by (simp add: adapt_Inr)

lemma insert_posts_Inl:
  "insert_posts gen db title content author_id = (db', Inl e) \<Longrightarrow>
   db' = db \<and> (\<exists>cause. e = DatabaseError cause)"
  by (auto simp: insert_posts_def Let_def split: option.splits if_splits)



lemma insert_users_Inl:
  "insert_users gen db username password_hash = (db', Inl e) \<Longrightarrow>
   db' = db \<and> (\<exists>cause. e = DatabaseError cause)"
  by (auto simp: insert_users_def Let_def split: option.splits if_splits)


lemma insert_users_ok:
  "varchar 100 username = Some u \<Longrightarrow> varchar 255 password_hash = Some h \<Longrightarrow>
   \<forall>r \<in> set (users db). users_id r \<noteq> gen_random_uuid gen \<and> users_username r \<noteq> u \<Longrightarrow>
   insert_users gen db username password_hash =
     (db\<lparr>users := users db @
         [\<lparr>users_id = gen_random_uuid gen, users_username = u,
           users_password_hash = h, users_created_at = now gen\<rparr>]\<rparr>,
      Inr \<lparr>users_id = gen_random_uuid gen, users_username = u,
           users_password_hash = h, users_created_at = now gen\<rparr>)"
  by (auto simp: insert_users_def Let_def)




subsection \<open>The branches of \<open>create_post\<close>\<close>

lemma create_post_empty_title:
  "strip title = [] \<Longrightarrow>
   create_post lib gen db title content author_id =
     (db, Inl (ValueError (lit ''Title cannot be empty'')))"
  unfolding create_post_def not_text_iff by simp

lemma create_post_long_title:
  "strip title \<noteq> [] \<Longrightarrow> 200 < length title \<Longrightarrow>
   create_post lib gen db title content author_id =
     (db, Inl (ValueError (lit ''Title cannot exceed 200 characters'')))"
  unfolding create_post_def not_text_iff by simp

lemma create_post_empty_content:
  "strip title \<noteq> [] \<Longrightarrow> length title \<le> 200 \<Longrightarrow> strip content = [] \<Longrightarrow>
   create_post lib gen db title content author_id =
     (db, Inl (ValueError (lit ''Content cannot be empty'')))"
  unfolding create_post_def not_text_iff by simp

lemma create_post_valid:
  "strip title \<noteq> [] \<Longrightarrow> length title \<le> 200 \<Longrightarrow> strip content \<noteq> [] \<Longrightarrow>
   create_post lib gen db title content author_id =
     (case mogrify lib [strip title, strip content, author_id] of
        Some e \<Rightarrow> (db, Inl e)
      | None \<Rightarrow> insert_posts gen db (strip title) (strip content) author_id)"
  unfolding create_post_def not_text_iff by simp












subsection \<open>Values of the examples\<close>


lemma lit_distinct_examples:
  "lit ''00000000-0000-0000-0000-000000000001'' \<noteq> lit ''00000000-0000-0000-0000-000000000002''"
  "lit ''00000000-0000-0000-0000-000000000002'' \<noteq> lit ''00000000-0000-0000-0000-000000000001''"
  "lit ''00000000-0000-0000-0000-000000000001'' \<noteq> lit ''00000000-0000-0000-0000-000000000003''"
  "lit ''00000000-0000-0000-0000-000000000003'' \<noteq> lit ''00000000-0000-0000-0000-000000000001''"
  "lit ''00000000-0000-0000-0000-000000000002'' \<noteq> lit ''00000000-0000-0000-0000-000000000003''"
  "lit ''00000000-0000-0000-0000-000000000003'' \<noteq> lit ''00000000-0000-0000-0000-000000000002''"
  by (simp_all add: lit_def)

subsection \<open>The branches of \<open>create_user\<close> and \<open>authenticate_user\<close>\<close>

lemma find_None_username:
  "find (\<lambda>r. users_username r = username) rows = None \<longleftrightarrow>
   (\<forall>r \<in> set rows. users_username r \<noteq> username)"
  by (auto simp: find_None_iff)

lemma hash_password_Inr:
  "encodable password \<Longrightarrow> UserService_hash_password lib password = Inr (sha256 lib password)"
  by (simp add: UserService_hash_password_def encode_def)

lemma hash_password_Inl:
  "\<not> encodable password \<Longrightarrow>
   UserService_hash_password lib password = Inl (UnicodeEncodeError (utf8_error lib password))"
  by (simp add: UserService_hash_password_def encode_def)

lemma create_user_unsendable:
  "mogrify lib [username] = Some e \<Longrightarrow> create_user lib gen db username password = (db, Inl e)"
  unfolding create_user_def by (simp del: mogrify.simps)

lemma create_user_duplicate:
  assumes "encodable username" "0 \<notin> set username"
    and d: "\<exists>r \<in> set (users db). users_username r = username"
  shows "create_user lib gen db username password =
     (db, Inl (ValueError
        (lit ''Username '' @ [39] @ username @ [39] @ lit '' already exists'')))"
proof -
  from assms have m: "mogrify lib [username] = None"
    unfolding mogrify_None_iff by simp
  from d have "find (\<lambda>r. users_username r = username) (users db) \<noteq> None"
    by (simp only: find_None_username) blast
  then obtain r where f: "find (\<lambda>r. users_username r = username) (users db) = Some r"
    by blast
  show ?thesis
    unfolding create_user_def m f option.case by (rule refl)
qed

lemma create_user_new:
  assumes "encodable username" "0 \<notin> set username"
    and n: "\<forall>r \<in> set (users db). users_username r \<noteq> username"
  shows "create_user lib gen db username password =
     (case UserService_hash_password lib password of
        Inl e \<Rightarrow> (db, Inl e)
      | Inr password_hash \<Rightarrow>
          (case mogrify lib [username, password_hash] of
             Some e \<Rightarrow> (db, Inl e)
           | None \<Rightarrow>
               (case insert_users gen db username password_hash of
                  (db', Inl e) \<Rightarrow> (db', Inl e)
                | (db', Inr user) \<Rightarrow> (db', Inr (user_columns user)))))"
proof -
  from assms have m: "mogrify lib [username] = None"
    unfolding mogrify_None_iff by simp
  from n have f: "find (\<lambda>r. users_username r = username) (users db) = None"
    by (simp only: find_None_username)
  show ?thesis
    unfolding create_user_def m f option.case by (rule refl)
qed

lemma create_user_stored:
  assumes u: "encodable username" "0 \<notin> set username" "length username \<le> 100"
    and n: "\<forall>r \<in> set (users db). users_username r \<noteq> username"
    and p: "encodable password" and h: "hexdigest 64 (sha256 lib password)"
    and i: "\<forall>r \<in> set (users db). users_id r \<noteq> gen_random_uuid gen"
  shows "create_user lib gen db username password =
     (db\<lparr>users := users db @
         [\<lparr>users_id = gen_random_uuid gen, users_username = username,
           users_password_hash = sha256 lib password, users_created_at = now gen\<rparr>]\<rparr>,
      Inr \<lparr>user_id = gen_random_uuid gen, user_username = username,
           user_created_at = now gen\<rparr>)"
proof -
  from u hexdigest_plain [OF h]
  have m: "mogrify lib [username, sha256 lib password] = None"
    unfolding mogrify_None_iff by simp
  from n i have k: "\<forall>r \<in> set (users db).
      users_id r \<noteq> gen_random_uuid gen \<and> users_username r \<noteq> username"
    by blast
  have v: "varchar 100 username = Some username"
    "varchar 255 (sha256 lib password) = Some (sha256 lib password)"
    using u h by (simp_all add: varchar_short hexdigest_varchar)
  show ?thesis
    unfolding create_user_new [OF u(1,2) n] hash_password_Inr [OF p] sum.case m option.case
      insert_users_ok [OF v k]
    by (simp add: user_columns_def)
qed



lemma create_user_errors:
  assumes r: "create_user lib gen db username password = (db', Inl e)"
  shows "(e = ValueError (lit ''Username '' @ [39] @ username @ [39] @ lit '' already exists'') \<and>
          (\<exists>r \<in> set (users db). users_username r = username)) \<or>
         e = ValueError (lit ''A string literal cannot contain NUL (0x00) characters.'') \<or>
         (\<exists>message. e = UnicodeEncodeError message) \<or>
         (\<exists>cause. e = DatabaseError cause)"
proof (cases "mogrify lib [username]")
  case (Some e')
  from create_user_unsendable [OF Some] r have "e = e'" by simp
  with mogrify_Some [OF Some] show ?thesis by blast
next
  case None
  then have u: "encodable username" "0 \<notin> set username"
    unfolding mogrify_None_iff by simp_all
  show ?thesis
  proof (cases "\<exists>r \<in> set (users db). users_username r = username")
    case True
    from create_user_duplicate [OF u True] r True show ?thesis by simp
  next
    case False
    then have n: "\<forall>r \<in> set (users db). users_username r \<noteq> username" by blast
    note c = create_user_new [OF u n, of lib gen password]
    show ?thesis
    proof (cases "encodable password")
      case False
      from c r hash_password_Inl [OF False] show ?thesis by simp
    next
      case True
      note h = hash_password_Inr [OF True, of lib]
      show ?thesis
      proof (cases "mogrify lib [username, sha256 lib password]")
        case (Some e')
        with c r h have "e = e'" by (simp del: mogrify.simps)
        with mogrify_Some [OF Some] show ?thesis by blast
      next
        case None
        obtain d x where i: "insert_users gen db username (sha256 lib password) = (d, x)"
          by (cases "insert_users gen db username (sha256 lib password)")
        show ?thesis
        proof (cases x)
          case (Inl e')
          with c r h None i have "e = e'" by (simp del: mogrify.simps)
          with i Inl insert_users_Inl show ?thesis by blast
        next
          case (Inr row)
          with c r h None i show ?thesis by (simp del: mogrify.simps)
        qed
      qed
    qed
  qed
qed


lemma api_register_Inl:
  "create_user lib gen db username password = (db', Inl e) \<Longrightarrow>
   api_register lib gen db \<lparr>register_username = username, register_password = password\<rparr> =
     (db', Inl (except_ValueError e))"
  by (simp add: api_register_def)

lemma api_register_Inr:
  "create_user lib gen db username password = (db', Inr user) \<Longrightarrow>
   api_register lib gen db \<lparr>register_username = username, register_password = password\<rparr> =
     (db', Inr (RegisterResponse (user_id user) (user_username user)))"
  by (simp add: api_register_def)


lemma create_user_NUL_username:
  assumes "encodable username" "0 \<in> set username"
  shows "create_user lib gen db username password =
     (db, Inl (ValueError (lit ''A string literal cannot contain NUL (0x00) characters.'')))"
  by (rule create_user_unsendable) (rule mogrify_first_NUL [OF assms])















subsection \<open>The branches of \<open>get_post_by_id\<close>, \<open>create_comment\<close> and \<open>list_comments_by_post\<close>\<close>





lemma api_get_post_Inl:
  "get_post_by_id lib db post_id = Inl e \<Longrightarrow>
   api_get_post lib db post_id = Inl (except_HTTPException e)"
  by (simp add: api_get_post_def)
















subsection \<open>More values of the examples\<close>

lemma hexdigest_example:
  "hexdigest 64 (replicate 63 48 @ [48 + length (b :: pystr) mod 10])"
  "hexdigest 64 (replicate 63 48 @ [48])"
  "hexdigest 64 (replicate 63 48 @ [49])"
  "hexdigest 64 (replicate 63 48 @ [50])"
  by (auto simp: hexdigest_def)

lemma encodable_examples:
  "encodable []" "encodable [97]" "encodable [112]" "encodable [112, 113]" "encodable [0]"
  "encodable [97, 0]" "encodable (replicate 101 97)" "\<not> encodable [55296]"
  "encodable [104, 105]" "encodable [32]" "encodable [114]"
  by (simp_all add: encodable_def surrogate_def)





section \<open>The claims\<close>


















text \<open>
  C9, as stated, fails for a username the driver refuses: with no user stored, the username
  of one NUL and the empty password raise a \<open>ValueError\<close> that is not the duplicate error, and
  the endpoint answers with status 400.
\<close>

theorem create_user_raises_without_duplicate_counterexample:
  "create_user \<lparr>md5 = (\<lambda>b. replicate 32 48), sha256 = (\<lambda>b. replicate 63 48 @ [48 + length b mod 10]), utf8_error = (\<lambda>s. [])\<rparr> \<lparr>gen_random_uuid = lit ''00000000-0000-0000-0000-000000000001'', now = 7\<rparr> \<lparr>users = [], posts = [], comments = []\<rparr> [0] [] = (\<lparr>users = [], posts = [], comments = []\<rparr>, Inl (ValueError (lit ''A string literal cannot contain NUL (0x00) characters.'')))
   \<and> api_register \<lparr>md5 = (\<lambda>b. replicate 32 48), sha256 = (\<lambda>b. replicate 63 48 @ [48 + length b mod 10]), utf8_error = (\<lambda>s. [])\<rparr> \<lparr>gen_random_uuid = lit ''00000000-0000-0000-0000-000000000001'', now = 7\<rparr> \<lparr>users = [], posts = [], comments = []\<rparr> \<lparr>register_username = [0], register_password = []\<rparr> =
       (\<lparr>users = [], posts = [], comments = []\<rparr>, Inl (HTTPException 400 (lit ''A string literal cannot contain NUL (0x00) characters.'')))"
proof -
  let ?lib = "\<lparr>md5 = (\<lambda>b. replicate 32 48), sha256 = (\<lambda>b. replicate 63 48 @ [48 + length b mod 10]), utf8_error = (\<lambda>s. [])\<rparr>"
  let ?g1 = "\<lparr>gen_random_uuid = lit ''00000000-0000-0000-0000-000000000001'', now = 7\<rparr>"
  let ?db0 = "\<lparr>users = [], posts = [], comments = []\<rparr>"
  have e: "encodable [0]" by (simp add: encodable_def surrogate_def)
  have z: "0 \<in> set [0 :: nat]" by simp
  note r = create_user_NUL_username [OF e z, of ?lib ?g1 ?db0 "[]"]
  from r api_register_Inl [OF r] show ?thesis by (simp add: except_ValueError_def)
qed

text \<open>
  C9, amended. \<open>create_user\<close> has no emptiness check. For a username of at most 100
  characters without NUL and lone surrogate, a password that can be encoded, a digest of 64
  hexadecimal digits and a new generated \<open>id\<close>, it fails if and only if a row with the
  username exists, and otherwise stores the row with the digest of the password; so the
  empty username with the empty password is stored, with the digest of the empty password,
  when no row has the empty username. Every error of \<open>create_user\<close> is the duplicate
  error, the driver's \<open>ValueError\<close> for a NUL, a \<open>UnicodeEncodeError\<close> or an error of the
  engine; the \<open>ValueError\<close> for a NUL in the username becomes status 400 at the endpoint.
\<close>

theorem create_user_no_emptiness_validation:
  "(encodable username \<and> 0 \<notin> set username \<and> length username \<le> 100 \<and>
    encodable password \<and> hexdigest 64 (sha256 lib password) \<and>
    (\<forall>r \<in> set (users db). users_id r \<noteq> gen_random_uuid gen) \<longrightarrow>
      ((\<exists>e. snd (create_user lib gen db username password) = Inl e) \<longleftrightarrow>
         (\<exists>r \<in> set (users db). users_username r = username)) \<and>
      ((\<forall>r \<in> set (users db). users_username r \<noteq> username) \<longrightarrow>
         create_user lib gen db username password =
           (db\<lparr>users := users db @
                [\<lparr>users_id = gen_random_uuid gen, users_username = username,
                  users_password_hash = sha256 lib password, users_created_at = now gen\<rparr>]\<rparr>,
            Inr \<lparr>user_id = gen_random_uuid gen, user_username = username,
                 user_created_at = now gen\<rparr>)))
   \<and> (hexdigest 64 (sha256 lib []) \<and>
      (\<forall>r \<in> set (users db). users_id r \<noteq> gen_random_uuid gen) \<and>
      (\<forall>r \<in> set (users db). users_username r \<noteq> []) \<longrightarrow>
      create_user lib gen db [] [] =
        (db\<lparr>users := users db @
             [\<lparr>users_id = gen_random_uuid gen, users_username = [],
               users_password_hash = sha256 lib [], users_created_at = now gen\<rparr>]\<rparr>,
         Inr \<lparr>user_id = gen_random_uuid gen, user_username = [],
              user_created_at = now gen\<rparr>) \<and>
      api_register lib gen db \<lparr>register_username = [], register_password = []\<rparr> =
        (db\<lparr>users := users db @
             [\<lparr>users_id = gen_random_uuid gen, users_username = [],
               users_password_hash = sha256 lib [], users_created_at = now gen\<rparr>]\<rparr>,
         Inr (RegisterResponse (gen_random_uuid gen) [])))
   \<and> (\<forall>db' e. create_user lib gen db username password = (db', Inl e) \<longrightarrow>
        (e = ValueError
               (lit ''Username '' @ [39] @ username @ [39] @ lit '' already exists'') \<and>
         (\<exists>r \<in> set (users db). users_username r = username)) \<or>
        e = ValueError (lit ''A string literal cannot contain NUL (0x00) characters.'') \<or>
        (\<exists>message. e = UnicodeEncodeError message) \<or>
        (\<exists>cause. e = DatabaseError cause))
   \<and> (encodable username \<and> 0 \<in> set username \<longrightarrow>
      create_user lib gen db username password =
        (db, Inl (ValueError
           (lit ''A string literal cannot contain NUL (0x00) characters.''))) \<and>
      api_register lib gen db \<lparr>register_username = username, register_password = password\<rparr> =
        (db, Inl (HTTPException 400
           (lit ''A string literal cannot contain NUL (0x00) characters.''))))"
proof -
  let ?request = "\<lparr>register_username = username, register_password = password\<rparr>"
  let ?stored = "\<lambda>username password.
     (db\<lparr>users := users db @
          [\<lparr>users_id = gen_random_uuid gen, users_username = username,
            users_password_hash = sha256 lib password, users_created_at = now gen\<rparr>]\<rparr>,
      Inr \<lparr>user_id = gen_random_uuid gen, user_username = username,
           user_created_at = now gen\<rparr>)"
  have c1: "encodable username \<and> 0 \<notin> set username \<and> length username \<le> 100 \<and>
    encodable password \<and> hexdigest 64 (sha256 lib password) \<and>
    (\<forall>r \<in> set (users db). users_id r \<noteq> gen_random_uuid gen) \<longrightarrow>
      ((\<exists>e. snd (create_user lib gen db username password) = Inl e) \<longleftrightarrow>
         (\<exists>r \<in> set (users db). users_username r = username)) \<and>
      ((\<forall>r \<in> set (users db). users_username r \<noteq> username) \<longrightarrow>
         create_user lib gen db username password = ?stored username password)"
  proof
    assume a: "encodable username \<and> 0 \<notin> set username \<and> length username \<le> 100 \<and>
      encodable password \<and> hexdigest 64 (sha256 lib password) \<and>
      (\<forall>r \<in> set (users db). users_id r \<noteq> gen_random_uuid gen)"
    then have u: "encodable username" "0 \<notin> set username" "length username \<le> 100"
      and p: "encodable password" and h: "hexdigest 64 (sha256 lib password)"
      and i: "\<forall>r \<in> set (users db). users_id r \<noteq> gen_random_uuid gen"
      by simp_all
    have s: "create_user lib gen db username password = ?stored username password"
      if "\<forall>r \<in> set (users db). users_username r \<noteq> username"
      using create_user_stored [OF u that p h i] .
    have "(\<exists>e. snd (create_user lib gen db username password) = Inl e) \<longleftrightarrow>
         (\<exists>r \<in> set (users db). users_username r = username)"
    proof (cases "\<exists>r \<in> set (users db). users_username r = username")
      case True
      with create_user_duplicate [OF u(1,2) True, of lib gen password] show ?thesis by simp
    next
      case False
      then have "\<forall>r \<in> set (users db). users_username r \<noteq> username" by blast
      from s [OF this] False show ?thesis by simp
    qed
    with s show "((\<exists>e. snd (create_user lib gen db username password) = Inl e) \<longleftrightarrow>
         (\<exists>r \<in> set (users db). users_username r = username)) \<and>
      ((\<forall>r \<in> set (users db). users_username r \<noteq> username) \<longrightarrow>
         create_user lib gen db username password = ?stored username password)"
      by blast
  qed
  have c2: "hexdigest 64 (sha256 lib []) \<and>
      (\<forall>r \<in> set (users db). users_id r \<noteq> gen_random_uuid gen) \<and>
      (\<forall>r \<in> set (users db). users_username r \<noteq> []) \<longrightarrow>
      create_user lib gen db [] [] = ?stored [] [] \<and>
      api_register lib gen db \<lparr>register_username = [], register_password = []\<rparr> =
        (fst (?stored [] []), Inr (RegisterResponse (gen_random_uuid gen) []))"
  proof
    assume a: "hexdigest 64 (sha256 lib []) \<and>
      (\<forall>r \<in> set (users db). users_id r \<noteq> gen_random_uuid gen) \<and>
      (\<forall>r \<in> set (users db). users_username r \<noteq> [])"
    have e: "encodable []" "0 \<notin> set ([] :: pystr)" "length ([] :: pystr) \<le> 100"
      by (simp_all add: encodable_def)
    from a have s: "create_user lib gen db [] [] = ?stored [] []"
      using create_user_stored [OF e, of db "[]" lib gen] e(1) by blast
    from s api_register_Inr [OF s]
    show "create_user lib gen db [] [] = ?stored [] [] \<and>
      api_register lib gen db \<lparr>register_username = [], register_password = []\<rparr> =
        (fst (?stored [] []), Inr (RegisterResponse (gen_random_uuid gen) []))"
      by simp
  qed
  have c3: "\<forall>db' e. create_user lib gen db username password = (db', Inl e) \<longrightarrow>
        (e = ValueError
               (lit ''Username '' @ [39] @ username @ [39] @ lit '' already exists'') \<and>
         (\<exists>r \<in> set (users db). users_username r = username)) \<or>
        e = ValueError (lit ''A string literal cannot contain NUL (0x00) characters.'') \<or>
        (\<exists>message. e = UnicodeEncodeError message) \<or>
        (\<exists>cause. e = DatabaseError cause)"
    using create_user_errors [of lib gen db username password] by blast
  have c4: "encodable username \<and> 0 \<in> set username \<longrightarrow>
      create_user lib gen db username password =
        (db, Inl (ValueError
           (lit ''A string literal cannot contain NUL (0x00) characters.''))) \<and>
      api_register lib gen db ?request =
        (db, Inl (HTTPException 400
           (lit ''A string literal cannot contain NUL (0x00) characters.'')))"
  proof
    assume "encodable username \<and> 0 \<in> set username"
    then have r: "create_user lib gen db username password =
        (db, Inl (ValueError
           (lit ''A string literal cannot contain NUL (0x00) characters.'')))"
      by (simp add: create_user_NUL_username)
    from r api_register_Inl [OF r]
    show "create_user lib gen db username password =
        (db, Inl (ValueError
           (lit ''A string literal cannot contain NUL (0x00) characters.''))) \<and>
      api_register lib gen db ?request =
        (db, Inl (HTTPException 400
           (lit ''A string literal cannot contain NUL (0x00) characters.'')))"
      by (simp add: except_ValueError_def)
  qed
  from c2 have c2': "hexdigest 64 (sha256 lib []) \<and>
      (\<forall>r \<in> set (users db). users_id r \<noteq> gen_random_uuid gen) \<and>
      (\<forall>r \<in> set (users db). users_username r \<noteq> []) \<longrightarrow>
      create_user lib gen db [] [] =
        (db\<lparr>users := users db @
             [\<lparr>users_id = gen_random_uuid gen, users_username = [],
               users_password_hash = sha256 lib [], users_created_at = now gen\<rparr>]\<rparr>,
         Inr \<lparr>user_id = gen_random_uuid gen, user_username = [],
              user_created_at = now gen\<rparr>) \<and>
      api_register lib gen db \<lparr>register_username = [], register_password = []\<rparr> =
        (db\<lparr>users := users db @
             [\<lparr>users_id = gen_random_uuid gen, users_username = [],
               users_password_hash = sha256 lib [], users_created_at = now gen\<rparr>]\<rparr>,
         Inr (RegisterResponse (gen_random_uuid gen) []))"
    by simp
  show ?thesis
    by (rule c1 c2' c3 c4 conjI)+
qed

theorem create_user_no_emptiness_validation_witness:
  "create_user \<lparr>md5 = (\<lambda>b. replicate 32 48), sha256 = (\<lambda>b. replicate 63 48 @ [48 + length b mod 10]), utf8_error = (\<lambda>s. [])\<rparr> \<lparr>gen_random_uuid = lit ''00000000-0000-0000-0000-000000000001'', now = 7\<rparr> \<lparr>users = [], posts = [], comments = []\<rparr> [] [] = (\<lparr>users = [\<lparr>users_id = lit ''00000000-0000-0000-0000-000000000001'', users_username = [], users_password_hash = (replicate 63 48 @ [48]), users_created_at = 7\<rparr>], posts = [], comments = []\<rparr>, Inr \<lparr>user_id = lit ''00000000-0000-0000-0000-000000000001'', user_username = [], user_created_at = 7\<rparr>)
   \<and> api_register \<lparr>md5 = (\<lambda>b. replicate 32 48), sha256 = (\<lambda>b. replicate 63 48 @ [48 + length b mod 10]), utf8_error = (\<lambda>s. [])\<rparr> \<lparr>gen_random_uuid = lit ''00000000-0000-0000-0000-000000000001'', now = 7\<rparr> \<lparr>users = [], posts = [], comments = []\<rparr> \<lparr>register_username = [], register_password = []\<rparr> =
       (\<lparr>users = [\<lparr>users_id = lit ''00000000-0000-0000-0000-000000000001'', users_username = [], users_password_hash = (replicate 63 48 @ [48]), users_created_at = 7\<rparr>], posts = [], comments = []\<rparr>, Inr (RegisterResponse (lit ''00000000-0000-0000-0000-000000000001'') []))
   \<and> create_user \<lparr>md5 = (\<lambda>b. replicate 32 48), sha256 = (\<lambda>b. replicate 63 48 @ [48 + length b mod 10]), utf8_error = (\<lambda>s. [])\<rparr> \<lparr>gen_random_uuid = lit ''00000000-0000-0000-0000-000000000001'', now = 7\<rparr> \<lparr>users = [], posts = [], comments = []\<rparr> [97] [] = (\<lparr>users = [\<lparr>users_id = lit ''00000000-0000-0000-0000-000000000001'', users_username = [97], users_password_hash = (replicate 63 48 @ [48]), users_created_at = 7\<rparr>], posts = [], comments = []\<rparr>, Inr \<lparr>user_id = lit ''00000000-0000-0000-0000-000000000001'', user_username = [97], user_created_at = 7\<rparr>)
   \<and> (\<exists>e. snd (create_user \<lparr>md5 = (\<lambda>b. replicate 32 48), sha256 = (\<lambda>b. replicate 63 48 @ [48 + length b mod 10]), utf8_error = (\<lambda>s. [])\<rparr> \<lparr>gen_random_uuid = lit ''00000000-0000-0000-0000-000000000002'', now = 8\<rparr> \<lparr>users = [\<lparr>users_id = lit ''00000000-0000-0000-0000-000000000001'', users_username = [], users_password_hash = (replicate 63 48 @ [48]), users_created_at = 7\<rparr>], posts = [], comments = []\<rparr> [] [112]) = Inl e)
   \<and> create_user \<lparr>md5 = (\<lambda>b. replicate 32 48), sha256 = (\<lambda>b. replicate 63 48 @ [48 + length b mod 10]), utf8_error = (\<lambda>s. [])\<rparr> \<lparr>gen_random_uuid = lit ''00000000-0000-0000-0000-000000000001'', now = 7\<rparr> \<lparr>users = [], posts = [], comments = []\<rparr> [0] [112] = (\<lparr>users = [], posts = [], comments = []\<rparr>, Inl (ValueError (lit ''A string literal cannot contain NUL (0x00) characters.'')))
   \<and> api_register \<lparr>md5 = (\<lambda>b. replicate 32 48), sha256 = (\<lambda>b. replicate 63 48 @ [48 + length b mod 10]), utf8_error = (\<lambda>s. [])\<rparr> \<lparr>gen_random_uuid = lit ''00000000-0000-0000-0000-000000000001'', now = 7\<rparr> \<lparr>users = [], posts = [], comments = []\<rparr> \<lparr>register_username = [0], register_password = [112]\<rparr> =
       (\<lparr>users = [], posts = [], comments = []\<rparr>, Inl (HTTPException 400 (lit ''A string literal cannot contain NUL (0x00) characters.'')))"
proof -
  let ?lib = "\<lparr>md5 = (\<lambda>b. replicate 32 48), sha256 = (\<lambda>b. replicate 63 48 @ [48 + length b mod 10]), utf8_error = (\<lambda>s. [])\<rparr>"
  let ?g1 = "\<lparr>gen_random_uuid = lit ''00000000-0000-0000-0000-000000000001'', now = 7\<rparr>"
  let ?g2 = "\<lparr>gen_random_uuid = lit ''00000000-0000-0000-0000-000000000002'', now = 8\<rparr>"
  let ?db0 = "\<lparr>users = [], posts = [], comments = []\<rparr>"
  let ?dbe = "\<lparr>users = [\<lparr>users_id = lit ''00000000-0000-0000-0000-000000000001'', users_username = [], users_password_hash = (replicate 63 48 @ [48]), users_created_at = 7\<rparr>], posts = [], comments = []\<rparr>"
  note h = hexdigest_example
  note e = encodable_examples
  have t12: "create_user ?lib ?g1 ?db0 [] [] = (?dbe, Inr \<lparr>user_id = lit ''00000000-0000-0000-0000-000000000001'', user_username = [], user_created_at = 7\<rparr>) \<and>
      api_register ?lib ?g1 ?db0 \<lparr>register_username = [], register_password = []\<rparr> =
        (?dbe, Inr (RegisterResponse (lit ''00000000-0000-0000-0000-000000000001'') []))"
    using create_user_no_emptiness_validation
      [THEN conjunct2, THEN conjunct1, of ?lib ?db0 ?g1]
    by (simp add: h)
  have t3: "create_user ?lib ?g1 ?db0 [97] [] = (\<lparr>users = [\<lparr>users_id = lit ''00000000-0000-0000-0000-000000000001'', users_username = [97], users_password_hash = (replicate 63 48 @ [48]), users_created_at = 7\<rparr>], posts = [], comments = []\<rparr>, Inr \<lparr>user_id = lit ''00000000-0000-0000-0000-000000000001'', user_username = [97], user_created_at = 7\<rparr>)"
    using create_user_no_emptiness_validation
      [THEN conjunct1, of "[97]" "[]" ?lib ?db0 ?g1]
    by (simp add: e h)
  have t4: "\<exists>e. snd (create_user ?lib ?g2 ?dbe [] [112]) = Inl e"
    using create_user_no_emptiness_validation
      [THEN conjunct1, of "[]" "[112]" ?lib ?dbe ?g2]
    by (simp add: e h lit_distinct_examples)
  have t56: "create_user ?lib ?g1 ?db0 [0] [112] = (?db0, Inl (ValueError (lit ''A string literal cannot contain NUL (0x00) characters.''))) \<and>
      api_register ?lib ?g1 ?db0 \<lparr>register_username = [0], register_password = [112]\<rparr> =
        (?db0, Inl (HTTPException 400 (lit ''A string literal cannot contain NUL (0x00) characters.'')))"
    using create_user_no_emptiness_validation
      [THEN conjunct2, THEN conjunct2, THEN conjunct2, of "[0]" ?lib ?g1 ?db0 "[112]"]
    by (simp add: e)
  from t12 t3 t4 t56 show ?thesis by (intro conjI) simp_all
qed

text \<open>
  C10. In \<open>create_post\<close> the limit of 200 is tested on the title as given, after the
  emptiness check. A title with text in it whose trimmed length is at most 200 and whose
  raw length exceeds 200 fails with "Title cannot exceed 200 characters"; a title of
  whitespace only fails with "Title cannot be empty", whatever its length; and the length
  error is raised exactly for the titles with text in them whose raw length exceeds 200.
\<close>

theorem create_post_limit_on_raw_title:
  "(strip title \<noteq> [] \<and> length (strip title) \<le> 200 \<and> 200 < length title \<longrightarrow>
      create_post lib gen db title content author_id =
        (db, Inl (ValueError (lit ''Title cannot exceed 200 characters''))))
   \<and> ((\<forall>c \<in> set title. isspace c) \<longrightarrow>
      create_post lib gen db title content author_id =
        (db, Inl (ValueError (lit ''Title cannot be empty''))))
   \<and> (create_post lib gen db title content author_id =
        (db, Inl (ValueError (lit ''Title cannot exceed 200 characters''))) \<longleftrightarrow>
      strip title \<noteq> [] \<and> 200 < length title)"
proof (intro conjI impI iffI)
  assume "strip title \<noteq> [] \<and> length (strip title) \<le> 200 \<and> 200 < length title"
  then show "create_post lib gen db title content author_id =
        (db, Inl (ValueError (lit ''Title cannot exceed 200 characters'')))"
    by (simp add: create_post_long_title)
next
  assume "\<forall>c \<in> set title. isspace c"
  then have "strip title = []" by (simp only: strip_Nil_iff)
  then show "create_post lib gen db title content author_id =
        (db, Inl (ValueError (lit ''Title cannot be empty'')))"
    by (rule create_post_empty_title)
next
  assume "strip title \<noteq> [] \<and> 200 < length title"
  then show "create_post lib gen db title content author_id =
        (db, Inl (ValueError (lit ''Title cannot exceed 200 characters'')))"
    by (simp add: create_post_long_title)
next
  assume r: "create_post lib gen db title content author_id =
        (db, Inl (ValueError (lit ''Title cannot exceed 200 characters'')))"
  have t: "strip title \<noteq> []"
  proof
    assume "strip title = []"
    from create_post_empty_title [OF this, of lib gen db content author_id] r lit_messages(1)
    show False by simp
  qed
  show "strip title \<noteq> []" by (rule t)
  show "200 < length title"
  proof (rule ccontr)
    assume "\<not> 200 < length title"
    then have l: "length title \<le> 200" by simp
    show False
    proof (cases "strip content = []")
      case True
      from create_post_empty_content [OF t l True, of lib gen db author_id] r lit_messages(2)
      show False by simp
    next
      case False
      note v = create_post_valid [OF t l False, of lib gen db author_id]
      show False
      proof (cases "mogrify lib [strip title, strip content, author_id]")
        case None
        with v r
        have "insert_posts gen db (strip title) (strip content) author_id =
            (db, Inl (ValueError (lit ''Title cannot exceed 200 characters'')))"
          by simp
        from insert_posts_Inl [OF this] show False by simp
      next
        case (Some e)
        with v r have "e = ValueError (lit ''Title cannot exceed 200 characters'')" by simp
        with mogrify_Some [OF Some] lit_messages(3) show False by auto
      qed
    qed
  qed
qed

theorem create_post_limit_on_raw_title_witness:
  "strip (97 # replicate 200 32) = [97] \<and> length (97 # replicate 200 32) = 201
   \<and> create_post \<lparr>md5 = (\<lambda>b. []), sha256 = (\<lambda>b. []), utf8_error = (\<lambda>s. [])\<rparr>
        \<lparr>gen_random_uuid = [49], now = 7\<rparr> \<lparr>users = [], posts = [], comments = []\<rparr>
        (97 # replicate 200 32) [104, 105] [117] =
       (\<lparr>users = [], posts = [], comments = []\<rparr>,
        Inl (ValueError (lit ''Title cannot exceed 200 characters'')))
   \<and> create_post \<lparr>md5 = (\<lambda>b. []), sha256 = (\<lambda>b. []), utf8_error = (\<lambda>s. [])\<rparr>
        \<lparr>gen_random_uuid = [49], now = 7\<rparr> \<lparr>users = [], posts = [], comments = []\<rparr>
        (replicate 201 32) [104, 105] [117] =
       (\<lparr>users = [], posts = [], comments = []\<rparr>, Inl (ValueError (lit ''Title cannot be empty'')))"
proof -
  let ?lib = "\<lparr>md5 = (\<lambda>b. []), sha256 = (\<lambda>b. []), utf8_error = (\<lambda>s. [])\<rparr>"
  let ?g = "\<lparr>gen_random_uuid = [49], now = 7\<rparr>"
  let ?db = "\<lparr>users = [], posts = [], comments = []\<rparr>"
  have sp: "isspace 32" "\<not> isspace 97" by (simp_all add: isspace_def)
  have d: "dropWhile isspace (replicate 200 32 @ [97]) = dropWhile isspace [97]"
    by (rule dropWhile_append2) (simp add: sp)
  have a: "strip (97 # replicate 200 32) = [97]"
    by (simp add: strip_def sp d)
  have b: "\<forall>c \<in> set (replicate 201 32). isspace c" by (simp add: sp)
  show ?thesis
    using create_post_limit_on_raw_title
        [of "97 # replicate 200 32" ?lib ?g ?db "[104, 105]" "[117]"]
      create_post_limit_on_raw_title [of "replicate 201 32" ?lib ?g ?db "[104, 105]" "[117]"]
      a b
    by simp
qed

end
